theory Spec2Isabelle
  imports Complex_Main "HOL-Library.Sublist"
begin

section \<open>Data model\<close>

text \<open>
  A row of the pandas DataFrame built in \<^verbatim>\<open>generate_mesh\<close> (lines 21-27 of
  \<^verbatim>\<open>CAE_mesh_automation.py\<close>). The four float64 columns hold finite values and
  are modelled as reals: IEEE rounding, signed zeros and overflow are abstracted.
  A DataFrame is the list of its rows, in index order.
\<close>

record MeshElementRecord =
  Element_ID :: int
  Aspect_Ratio :: real
  Jacobian :: real
  Skewness :: real
  Element_Quality :: real

type_synonym DataFrame = "MeshElementRecord list"

text \<open>The exceptions the modelled code can raise.\<close>

datatype error = ValueError | ZeroDivisionError | TypeError

text \<open>
  A float64 result of a reduction or of scalar arithmetic: a finite value, an infinity or
  NaN. Only the results of \<^verbatim>\<open>mean()\<close> and of the arithmetic of line 79 need the
  special values.
\<close>

datatype float64 = Finite real | PosInf | NegInf | NaN

text \<open>
  numpy's legacy global generator (\<^verbatim>\<open>np.random.seed\<close>, \<^verbatim>\<open>np.random.uniform\<close>) is a
  library outside the repository; its implementation is a parameter: the state a seed
  gives, and the step that draws one sample of \<^verbatim>\<open>random_sample\<close> (documented range
  [0.0, 1.0)) and advances the state.
\<close>

record 's np_random =
  np_seed :: "nat \<Rightarrow> 's"
  np_random_sample :: "'s \<Rightarrow> real \<times> 's"

text \<open>
  The interpreter's state outside the simulator object: the DataFrame objects that exist
  (an object's address is its index in \<open>frames\<close>) and the state of numpy's global
  generator.
\<close>

record 's world =
  frames :: "DataFrame list"
  rng :: 's

text \<open>
  The class \<^verbatim>\<open>MeshOptimizer\<close> (lines 4-9): \<open>mesh_data\<close> is \<^verbatim>\<open>None\<close> or a
  reference to the cached DataFrame object.
\<close>

record MeshOptimizer =
  num_elements :: int
  mesh_data :: "nat option"

definition MeshOptimizer_init :: "int \<Rightarrow> MeshOptimizer" where
  "MeshOptimizer_init n = \<lparr>num_elements = n, mesh_data = None\<rparr>"

section \<open>Library operations used by the code\<close>

text \<open>Creating a new DataFrame object: it gets a fresh address.\<close>

definition alloc :: "DataFrame \<Rightarrow> 's world \<Rightarrow> nat \<times> 's world" where
  "alloc df w = (length (frames w), w\<lparr>frames := frames w @ [df]\<rparr>)"

text \<open>Mutating the DataFrame object at address \<open>a\<close> in place.\<close>

definition assign_frame :: "nat \<Rightarrow> (DataFrame \<Rightarrow> DataFrame) \<Rightarrow> 's world \<Rightarrow> 's world" where
  "assign_frame a f w = w\<lparr>frames := (frames w)[a := f (frames w ! a)]\<rparr>"

text \<open>\<open>n\<close> successive draws of \<^verbatim>\<open>random_sample\<close>.\<close>

fun samples :: "('s \<Rightarrow> real \<times> 's) \<Rightarrow> nat \<Rightarrow> 's \<Rightarrow> real list \<times> 's" where
  "samples nxt 0 s = ([], s)"
| "samples nxt (Suc n) s =
     (case nxt s of (u, s') \<Rightarrow>
        (case samples nxt n s' of (us, s'') \<Rightarrow> (u # us, s'')))"

text \<open>
  \<^verbatim>\<open>np.random.uniform(low, high, size)\<close>: \<^verbatim>\<open>low + (high - low) * random_sample()\<close>
  for each of \<open>size\<close> entries; a negative size raises
  \<^verbatim>\<open>ValueError: negative dimensions are not allowed\<close>, size 0 gives an empty array.
\<close>

definition uniform ::
  "'s np_random \<Rightarrow> real \<Rightarrow> real \<Rightarrow> int \<Rightarrow> 's \<Rightarrow> error + (real list \<times> 's)" where
  "uniform np low high n s =
     (if n < 0 then Inl ValueError
      else case samples (np_random_sample np) (nat n) s of
             (us, s') \<Rightarrow> Inr (map (\<lambda>u. low + (high - low) * u) us, s'))"

text \<open>\<^verbatim>\<open>np.random.uniform(low, high)\<close> with no size: one draw.\<close>

definition uniform1 :: "'s np_random \<Rightarrow> real \<Rightarrow> real \<Rightarrow> 's \<Rightarrow> real \<times> 's" where
  "uniform1 np low high s =
     (case np_random_sample np s of (u, s') \<Rightarrow> (low + (high - low) * u, s'))"

text \<open>
  \<^verbatim>\<open>pd.DataFrame({...})\<close> from five columns: the rows in order; columns of different
  lengths raise \<^verbatim>\<open>ValueError\<close>.
\<close>

definition DataFrame_of_columns ::
  "int list \<Rightarrow> real list \<Rightarrow> real list \<Rightarrow> real list \<Rightarrow> real list \<Rightarrow> error + DataFrame" where
  "DataFrame_of_columns ids ars js ss qs =
     (if length ars = length ids \<and> length js = length ids \<and> length ss = length ids
         \<and> length qs = length ids
      then Inr (map (\<lambda>(i, a, j, s, q).
                  \<lparr>Element_ID = i, Aspect_Ratio = a, Jacobian = j, Skewness = s,
                   Element_Quality = q\<rparr>)
                (zip ids (zip ars (zip js (zip ss qs)))))
      else Inl ValueError)"

section \<open>The generator\<close>

text \<open>
  Lines 13-27 of \<^verbatim>\<open>generate_mesh\<close>: seed the global generator with 42, draw the four
  columns one after the other, build the DataFrame. \<^verbatim>\<open>np.arange(1, N + 1)\<close> is
  \<open>[1..N]\<close>, empty for \<open>N < 1\<close>. The result is the new frame and the generator's
  state after the draws.
\<close>

definition build_mesh_data :: "'s np_random \<Rightarrow> int \<Rightarrow> error + (DataFrame \<times> 's)" where
  "build_mesh_data np n =
     (let s0 = np_seed np 42;
          element_ids = [1 .. n]
      in case uniform np 1.0 5.0 n s0 of
           Inl e \<Rightarrow> Inl e
         | Inr (aspect_ratios, s1) \<Rightarrow>
       (case uniform np 0.3 1.0 n s1 of
           Inl e \<Rightarrow> Inl e
         | Inr (jacobians, s2) \<Rightarrow>
       (case uniform np 0.0 0.8 n s2 of
           Inl e \<Rightarrow> Inl e
         | Inr (skewness, s3) \<Rightarrow>
       (case uniform np 0.4 1.0 n s3 of
           Inl e \<Rightarrow> Inl e
         | Inr (element_quality, s4) \<Rightarrow>
       (case DataFrame_of_columns element_ids aspect_ratios jacobians skewness
               element_quality of
           Inl e \<Rightarrow> Inl e
         | Inr df \<Rightarrow> Inr (df, s4))))))"

text \<open>
  \<^verbatim>\<open>generate_mesh\<close> (lines 11-29): the new DataFrame object is stored in
  \<open>self.mesh_data\<close> and the same reference is returned. An exception ends the run: no
  state is returned with it.
\<close>

definition generate_mesh ::
  "'s np_random \<Rightarrow> MeshOptimizer \<Rightarrow> 's world \<Rightarrow> error + (nat \<times> MeshOptimizer \<times> 's world)" where
  "generate_mesh np self w =
     (case build_mesh_data np (num_elements self) of
        Inl e \<Rightarrow> Inl e
      | Inr (df, s4) \<Rightarrow>
          (case alloc df (w\<lparr>rng := s4\<rparr>) of
             (a, w') \<Rightarrow> Inr (a, self\<lparr>mesh_data := Some a\<rparr>, w')))"

section \<open>The quality classifier\<close>

text \<open>
  Lines 33-34 and 57-58, the same two lines in both methods:
  \<^verbatim>\<open>if self.mesh_data is None: self.generate_mesh()\<close>. The result is the reference
  \<open>self.mesh_data\<close> holds afterwards.
\<close>

definition ensure_mesh_data ::
  "'s np_random \<Rightarrow> MeshOptimizer \<Rightarrow> 's world \<Rightarrow> error + (nat \<times> MeshOptimizer \<times> 's world)" where
  "ensure_mesh_data np self w =
     (case mesh_data self of
        None \<Rightarrow> generate_mesh np self w
      | Some a \<Rightarrow> Inr (a, self, w))"

text \<open>
  The boolean mask of lines 37-40: four element-wise comparisons joined by the
  element-wise \<^verbatim>\<open>|\<close>.
\<close>

definition poor_mask :: "DataFrame \<Rightarrow> bool list" where
  "poor_mask df =
     map2 (\<or>)
       (map2 (\<or>)
          (map2 (\<or>) (map (\<lambda>r. Aspect_Ratio r > 3.5) df) (map (\<lambda>r. Jacobian r < 0.5) df))
          (map (\<lambda>r. Skewness r > 0.6) df))
       (map (\<lambda>r. Element_Quality r < 0.6) df)"

text \<open>\<^verbatim>\<open>df[mask]\<close>: the rows whose mask entry is true, as a new DataFrame.\<close>

definition select_rows :: "DataFrame \<Rightarrow> bool list \<Rightarrow> DataFrame" where
  "select_rows df flags = map fst (filter snd (zip df flags))"

text \<open>
  Python's \<^verbatim>\<open>/\<close> on two \<^verbatim>\<open>int\<close>s (line 46, the operands are \<^verbatim>\<open>len(...)\<close>): true
  division, \<^verbatim>\<open>ZeroDivisionError\<close> on a zero divisor.
\<close>

definition py_truediv :: "nat \<Rightarrow> nat \<Rightarrow> error + real" where
  "py_truediv a b = (if b = 0 then Inl ZeroDivisionError else Inr (real a / real b))"

text \<open>\<^verbatim>\<open>Series.mean()\<close>: the arithmetic mean, NaN for an empty column.\<close>

definition Series_mean :: "real list \<Rightarrow> float64" where
  "Series_mean xs = (if xs = [] then NaN else Finite (sum_list xs / real (length xs)))"

record analysis_report =
  Total_Elements :: nat
  Poor_Quality_Elements :: nat
  Percentage_Poor :: real
  Avg_Aspect_Ratio :: float64
  Avg_Jacobian :: float64
  Avg_Skewness :: float64
  Avg_Element_Quality :: float64

text \<open>
  \<^verbatim>\<open>analyze_mesh_quality\<close> (lines 31-53). The result is the report and the reference
  to the new DataFrame of poor rows.
\<close>

definition analyze_mesh_quality ::
  "'s np_random \<Rightarrow> MeshOptimizer \<Rightarrow> 's world
     \<Rightarrow> error + ((analysis_report \<times> nat) \<times> MeshOptimizer \<times> 's world)" where
  "analyze_mesh_quality np self w =
     (case ensure_mesh_data np self w of
        Inl e \<Rightarrow> Inl e
      | Inr (src, self1, w1) \<Rightarrow>
          (case alloc (select_rows (frames w1 ! src) (poor_mask (frames w1 ! src))) w1 of
             (poor_elements, w2) \<Rightarrow>
               (case py_truediv (length (frames w2 ! poor_elements))
                       (length (frames w2 ! src)) of
                  Inl e \<Rightarrow> Inl e
                | Inr q \<Rightarrow>
                    Inr ((\<lparr>Total_Elements = length (frames w2 ! src),
                           Poor_Quality_Elements = length (frames w2 ! poor_elements),
                           Percentage_Poor = q * 100,
                           Avg_Aspect_Ratio = Series_mean (map Aspect_Ratio (frames w2 ! src)),
                           Avg_Jacobian = Series_mean (map Jacobian (frames w2 ! src)),
                           Avg_Skewness = Series_mean (map Skewness (frames w2 ! src)),
                           Avg_Element_Quality =
                             Series_mean (map Element_Quality (frames w2 ! src))\<rparr>,
                          poor_elements), self1, w2))))"

section \<open>The adjuster\<close>

text \<open>\<^verbatim>\<open>Series.clip(lower, upper)\<close> on one entry.\<close>

definition clip :: "real \<Rightarrow> real \<Rightarrow> real \<Rightarrow> real" where
  "clip lower upper x = min upper (max lower x)"

text \<open>
  Lines 62-70, one entry of the list per statement, each as it changes the frame it is
  run on: four masked in-place scalings, then four column assignments.
\<close>

definition optimize_statements :: "(DataFrame \<Rightarrow> DataFrame) list" where
  "optimize_statements =
     [map (\<lambda>r. if Aspect_Ratio r > 3.5 then r\<lparr>Aspect_Ratio := Aspect_Ratio r * 0.7\<rparr> else r),
      map (\<lambda>r. if Jacobian r < 0.5 then r\<lparr>Jacobian := Jacobian r * 1.3\<rparr> else r),
      map (\<lambda>r. if Skewness r > 0.6 then r\<lparr>Skewness := Skewness r * 0.6\<rparr> else r),
      map (\<lambda>r. if Element_Quality r < 0.6
                then r\<lparr>Element_Quality := Element_Quality r * 1.25\<rparr> else r),
      map (\<lambda>r. r\<lparr>Aspect_Ratio := clip 1.0 4.0 (Aspect_Ratio r)\<rparr>),
      map (\<lambda>r. r\<lparr>Jacobian := clip 0.3 1.0 (Jacobian r)\<rparr>),
      map (\<lambda>r. r\<lparr>Skewness := clip 0.0 0.7 (Skewness r)\<rparr>),
      map (\<lambda>r. r\<lparr>Element_Quality := clip 0.5 1.0 (Element_Quality r)\<rparr>)]"

text \<open>
  \<^verbatim>\<open>optimize_mesh\<close> (lines 55-72): \<^verbatim>\<open>copy()\<close> creates a new object holding the
  cached frame's rows, the eight statements mutate that object, and its reference is
  returned.
\<close>

definition optimize_mesh ::
  "'s np_random \<Rightarrow> MeshOptimizer \<Rightarrow> 's world \<Rightarrow> error + (nat \<times> MeshOptimizer \<times> 's world)" where
  "optimize_mesh np self w =
     (case ensure_mesh_data np self w of
        Inl e \<Rightarrow> Inl e
      | Inr (src, self1, w1) \<Rightarrow>
          (case alloc (frames w1 ! src) w1 of
             (optimized_mesh, w2) \<Rightarrow>
               Inr (optimized_mesh, self1,
                    foldl (\<lambda>v stmt. assign_frame optimized_mesh stmt v) w2
                      optimize_statements)))"

section \<open>The metrics comparator\<close>

text \<open>
  Arithmetic on numpy float64 scalars (\<^verbatim>\<open>mean()\<close> returns \<^verbatim>\<open>numpy.float64\<close>):
  IEEE 754 on the special values. Unlike Python's own \<^verbatim>\<open>float\<close>, a numpy scalar
  division by zero raises nothing: it gives an infinity or NaN (and prints a
  \<^verbatim>\<open>RuntimeWarning\<close>, which is not modelled).
\<close>

fun f64_sub :: "float64 \<Rightarrow> float64 \<Rightarrow> float64" where
  "f64_sub (Finite a) (Finite b) = Finite (a - b)"
| "f64_sub NaN y = NaN"
| "f64_sub x NaN = NaN"
| "f64_sub PosInf PosInf = NaN"
| "f64_sub NegInf NegInf = NaN"
| "f64_sub PosInf y = PosInf"
| "f64_sub NegInf y = NegInf"
| "f64_sub (Finite a) PosInf = NegInf"
| "f64_sub (Finite a) NegInf = PosInf"

fun f64_div :: "float64 \<Rightarrow> float64 \<Rightarrow> float64" where
  "f64_div (Finite a) (Finite b) =
     (if b = 0 then (if a = 0 then NaN else if 0 < a then PosInf else NegInf)
      else Finite (a / b))"
| "f64_div NaN y = NaN"
| "f64_div x NaN = NaN"
| "f64_div (Finite a) y = Finite 0"
| "f64_div PosInf (Finite b) = (if 0 \<le> b then PosInf else NegInf)"
| "f64_div NegInf (Finite b) = (if 0 \<le> b then NegInf else PosInf)"
| "f64_div x y = NaN"

fun f64_mul :: "float64 \<Rightarrow> float64 \<Rightarrow> float64" where
  "f64_mul (Finite a) (Finite b) = Finite (a * b)"
| "f64_mul NaN y = NaN"
| "f64_mul x NaN = NaN"
| "f64_mul PosInf (Finite b) = (if b = 0 then NaN else if 0 < b then PosInf else NegInf)"
| "f64_mul NegInf (Finite b) = (if b = 0 then NaN else if 0 < b then NegInf else PosInf)"
| "f64_mul (Finite a) PosInf = (if a = 0 then NaN else if 0 < a then PosInf else NegInf)"
| "f64_mul (Finite a) NegInf = (if a = 0 then NaN else if 0 < a then NegInf else PosInf)"
| "f64_mul PosInf PosInf = PosInf"
| "f64_mul NegInf NegInf = PosInf"
| "f64_mul x y = NegInf"

record optimization_metrics =
  Original_Avg_Quality :: float64
  Optimized_Avg_Quality :: float64
  Improvement_Percentage :: float64
  Computational_Time_Reduction :: real

text \<open>
  \<^verbatim>\<open>compute_optimization_metrics\<close> (lines 74-86). With \<open>self.mesh_data\<close> still
  \<^verbatim>\<open>None\<close>, line 76 subscripts \<^verbatim>\<open>None\<close>: \<^verbatim>\<open>TypeError\<close>. Line 85 draws from numpy's
  global generator, whatever state it is in.
\<close>

definition compute_optimization_metrics ::
  "'s np_random \<Rightarrow> MeshOptimizer \<Rightarrow> nat \<Rightarrow> 's world
     \<Rightarrow> error + (optimization_metrics \<times> MeshOptimizer \<times> 's world)" where
  "compute_optimization_metrics np self optimized_mesh w =
     (case mesh_data self of
        None \<Rightarrow> Inl TypeError
      | Some src \<Rightarrow>
          (let original_avg_quality = Series_mean (map Element_Quality (frames w ! src));
               optimized_avg_quality =
                 Series_mean (map Element_Quality (frames w ! optimized_mesh));
               improvement =
                 f64_mul
                   (f64_div (f64_sub optimized_avg_quality original_avg_quality)
                      original_avg_quality)
                   (Finite 100)
           in case uniform1 np 18 22 (rng w) of
                (t, s') \<Rightarrow>
                  Inr (\<lparr>Original_Avg_Quality = original_avg_quality,
                        Optimized_Avg_Quality = optimized_avg_quality,
                        Improvement_Percentage = improvement,
                        Computational_Time_Reduction = t\<rparr>,
                       self, w\<lparr>rng := s'\<rparr>)))"

section \<open>The driver\<close>

text \<open>
  What one run produces: the objects \<^verbatim>\<open>main\<close> holds when it writes the files, and the
  text of the three files. \<^verbatim>\<open>DataFrame.to_csv\<close> is pandas' writer, a function of the
  frame's content, taken as a parameter. The console messages print values of the report
  and the metrics and are not modelled.
\<close>

record run_output =
  out_mesh_data :: DataFrame
  out_analysis :: analysis_report
  out_poor_elements :: DataFrame
  out_optimized_mesh :: DataFrame
  out_metrics :: optimization_metrics
  original_mesh_data_csv :: string
  optimized_mesh_data_csv :: string
  poor_quality_elements_csv :: string

text \<open>
  The body of \<^verbatim>\<open>main\<close> (lines 98-122) for an element count \<open>n\<close>, started in the
  world \<open>w0\<close>: the interpreter's state when the program starts, with the global
  generator in whatever state the operating system's entropy gave it.
\<close>

definition run_program ::
  "'s np_random \<Rightarrow> (DataFrame \<Rightarrow> string) \<Rightarrow> int \<Rightarrow> 's world \<Rightarrow> error + run_output" where
  "run_program np to_csv n w0 =
     (case generate_mesh np (MeshOptimizer_init n) w0 of
        Inl e \<Rightarrow> Inl e
      | Inr (mesh, optimizer1, w1) \<Rightarrow>
     (case analyze_mesh_quality np optimizer1 w1 of
        Inl e \<Rightarrow> Inl e
      | Inr ((analysis, poor_elements), optimizer2, w2) \<Rightarrow>
     (case optimize_mesh np optimizer2 w2 of
        Inl e \<Rightarrow> Inl e
      | Inr (optimized_mesh, optimizer3, w3) \<Rightarrow>
     (case compute_optimization_metrics np optimizer3 optimized_mesh w3 of
        Inl e \<Rightarrow> Inl e
      | Inr (optimization_metrics, optimizer4, w4) \<Rightarrow>
          Inr \<lparr>out_mesh_data = frames w4 ! mesh,
               out_analysis = analysis,
               out_poor_elements = frames w4 ! poor_elements,
               out_optimized_mesh = frames w4 ! optimized_mesh,
               out_metrics = optimization_metrics,
               original_mesh_data_csv = to_csv (frames w4 ! mesh),
               optimized_mesh_data_csv = to_csv (frames w4 ! optimized_mesh),
               poor_quality_elements_csv = to_csv (frames w4 ! poor_elements)\<rparr>))))"

definition main :: "'s np_random \<Rightarrow> (DataFrame \<Rightarrow> string) \<Rightarrow> 's world \<Rightarrow> error + run_output" where
  "main np to_csv w0 = run_program np to_csv 1000 w0"

section \<open>Notions used to state the properties\<close>

text \<open>
  The specification's predicate of a poor element (section 4.2): a record is poor if
  Aspect_Ratio > 3.5 or Jacobian < 0.5 or Skewness > 0.6 or Element_Quality < 0.6.
\<close>

definition spec_poor :: "MeshElementRecord \<Rightarrow> bool" where
  "spec_poor r \<longleftrightarrow>
     Aspect_Ratio r > 3.5 \<or> Jacobian r < 0.5 \<or> Skewness r > 0.6 \<or> Element_Quality r < 0.6"

text \<open>
  The specification's improvement formula (section 4.4 and the testable properties):
  (mean(adjusted.Element_Quality) - mean(original.Element_Quality))
  / mean(original.Element_Quality) * 100, over the reals.
\<close>

definition spec_mean :: "real list \<Rightarrow> real" where
  "spec_mean xs = sum_list xs / real (length xs)"

definition spec_improvement :: "DataFrame \<Rightarrow> DataFrame \<Rightarrow> real" where
  "spec_improvement original adjusted =
     (spec_mean (map Element_Quality adjusted) - spec_mean (map Element_Quality original))
       / spec_mean (map Element_Quality original) * 100"

text \<open>The eight statements of lines 62-70 as they act on one row.\<close>

definition optimize_row :: "MeshElementRecord \<Rightarrow> MeshElementRecord" where
  "optimize_row r =
     r\<lparr>Aspect_Ratio :=
         clip 1.0 4.0 (if Aspect_Ratio r > 3.5 then Aspect_Ratio r * 0.7 else Aspect_Ratio r),
       Jacobian := clip 0.3 1.0 (if Jacobian r < 0.5 then Jacobian r * 1.3 else Jacobian r),
       Skewness := clip 0.0 0.7 (if Skewness r > 0.6 then Skewness r * 0.6 else Skewness r),
       Element_Quality :=
         clip 0.5 1.0
           (if Element_Quality r < 0.6 then Element_Quality r * 1.25 else Element_Quality r)\<rparr>"


text \<open>
  A small concrete generator and writer, for evaluating the definitions on concrete
  inputs: the state is a counter, the seed is the starting count, and the samples cycle
  through 0, 1/4, 1/2, 3/4.
\<close>

definition demo_random :: "nat np_random" where
  "demo_random =
     \<lparr>np_seed = (\<lambda>k. k), np_random_sample = (\<lambda>s. (real (s mod 4) / 4, Suc s))\<rparr>"

definition demo_to_csv :: "DataFrame \<Rightarrow> string" where
  "demo_to_csv df = concat (map (\<lambda>r. if spec_poor r then ''P'' else ''A'') df)"

section \<open>Facts about the generator\<close>


lemma samples_length: "samples nxt n s = (us, s') \<Longrightarrow> length us = n"
  by (induction n arbitrary: s us s') (auto split: prod.splits)

lemma samples_range:
  "(\<And>t. P (fst (nxt t))) \<Longrightarrow> samples nxt n s = (us, s') \<Longrightarrow> u \<in> set us \<Longrightarrow> P u"
proof (induction n arbitrary: s us s' u)
  case 0
  then show ?case by simp
next
  case (Suc n)
  obtain v t where nx: "nxt s = (v, t)" by (cases "nxt s")
  obtain vs t' where rest: "samples nxt n t = (vs, t')" by (cases "samples nxt n t")
  from Suc.prems(2) nx rest have us: "us = v # vs" by simp
  have "P v" using Suc.prems(1) [of s] nx by simp
  moreover have "\<And>x. x \<in> set vs \<Longrightarrow> P x"
    using Suc.IH [OF Suc.prems(1) rest] by blast
  ultimately show ?case using Suc.prems(3) us by auto
qed

lemma uniform_neg: "n < 0 \<Longrightarrow> uniform np lo hi n s = Inl ValueError"
  by (simp add: uniform_def)

lemma uniform_nonneg:
  "0 \<le> n \<Longrightarrow> \<exists>xs s'. uniform np lo hi n s = Inr (xs, s') \<and> length xs = nat n"
  by (auto simp: uniform_def split: prod.splits dest: samples_length)

lemma uniform_range:
  assumes "\<And>t. 0 \<le> fst (np_random_sample np t) \<and> fst (np_random_sample np t) < 1"
    and "lo \<le> hi" and "uniform np lo hi n s = Inr (xs, s')" and "x \<in> set xs"
  shows "lo \<le> x \<and> x \<le> hi"
proof -
  from assms(3) obtain us where us: "samples (np_random_sample np) (nat n) s = (us, s')"
    and xs: "xs = map (\<lambda>u. lo + (hi - lo) * u) us"
    by (auto simp: uniform_def split: if_splits prod.splits)
  from assms(4) xs obtain u where u: "u \<in> set us" and x: "x = lo + (hi - lo) * u" by auto
  have "0 \<le> u \<and> u < 1"
    using samples_range [where P = "\<lambda>v. 0 \<le> v \<and> v < 1", OF assms(1) us u] .
  then have "0 \<le> (hi - lo) * u" and "(hi - lo) * u \<le> (hi - lo) * 1"
    using assms(2) mult_left_mono [of u 1 "hi - lo"] by simp_all
  then show ?thesis using x by simp
qed

lemma DataFrame_of_columns_ok:
  assumes "length ars = length ids" "length js = length ids" "length ss = length ids"
    "length qs = length ids"
  shows "\<exists>df. DataFrame_of_columns ids ars js ss qs = Inr df \<and> length df = length ids
     \<and> map Element_ID df = ids \<and> map Aspect_Ratio df = ars \<and> map Jacobian df = js
     \<and> map Skewness df = ss \<and> map Element_Quality df = qs"
proof -
  let ?z = "zip ids (zip ars (zip js (zip ss qs)))"
  have fst_z: "map fst ?z = ids" using assms by (simp add: map_fst_zip)
  have snd1: "map snd ?z = zip ars (zip js (zip ss qs))" using assms by (simp add: map_snd_zip)
  have a: "map (fst \<circ> snd) ?z = ars"
    using assms snd1 map_fst_zip [of ars "zip js (zip ss qs)"] by (simp flip: map_map)
  have snd2: "map (snd \<circ> snd) ?z = zip js (zip ss qs)"
    using assms snd1 map_snd_zip [of ars "zip js (zip ss qs)"] by (simp flip: map_map)
  have j: "map (fst \<circ> snd \<circ> snd) ?z = js"
    using assms snd2 map_fst_zip [of js "zip ss qs"] by (simp flip: map_map add: comp_assoc)
  have snd3: "map (snd \<circ> snd \<circ> snd) ?z = zip ss qs"
    using assms snd2 map_snd_zip [of js "zip ss qs"] by (simp flip: map_map add: comp_assoc)
  have sk: "map (fst \<circ> snd \<circ> snd \<circ> snd) ?z = ss"
    using assms snd3 map_fst_zip [of ss qs] by (simp flip: map_map add: comp_assoc)
  have q: "map (snd \<circ> snd \<circ> snd \<circ> snd) ?z = qs"
    using assms snd3 map_snd_zip [of ss qs] by (simp flip: map_map add: comp_assoc)
  show ?thesis
    using assms fst_z a j sk q
    by (simp add: DataFrame_of_columns_def o_def case_prod_beta)
qed

lemma build_mesh_data_neg: "n < 0 \<Longrightarrow> build_mesh_data np n = Inl ValueError"
  by (simp add: build_mesh_data_def uniform_neg)

lemma build_mesh_data_columns:
  assumes "0 \<le> n"
  shows "\<exists>df s ars js ss qs s0 s1 s2 s3.
     build_mesh_data np n = Inr (df, s)
     \<and> uniform np 1.0 5.0 n s0 = Inr (ars, s1)
     \<and> uniform np 0.3 1.0 n s1 = Inr (js, s2)
     \<and> uniform np 0.0 0.8 n s2 = Inr (ss, s3)
     \<and> uniform np 0.4 1.0 n s3 = Inr (qs, s)
     \<and> length df = nat n
     \<and> map Element_ID df = [1..n] \<and> map Aspect_Ratio df = ars \<and> map Jacobian df = js
     \<and> map Skewness df = ss \<and> map Element_Quality df = qs"
proof -
  obtain ars s1 where u1: "uniform np 1.0 5.0 n (np_seed np 42) = Inr (ars, s1)"
    and l1: "length ars = nat n"
    using uniform_nonneg [OF assms, of np "1.0" "5.0" "np_seed np 42"] by auto
  obtain js s2 where u2: "uniform np 0.3 1.0 n s1 = Inr (js, s2)"
    and l2: "length js = nat n"
    using uniform_nonneg [OF assms, of np "0.3" "1.0" s1] by auto
  obtain ss s3 where u3: "uniform np 0.0 0.8 n s2 = Inr (ss, s3)"
    and l3: "length ss = nat n"
    using uniform_nonneg [OF assms, of np "0.0" "0.8" s2] by auto
  obtain qs s4 where u4: "uniform np 0.4 1.0 n s3 = Inr (qs, s4)"
    and l4: "length qs = nat n"
    using uniform_nonneg [OF assms, of np "0.4" "1.0" s3] by auto
  have "\<exists>df. DataFrame_of_columns [1..n] ars js ss qs = Inr df \<and> length df = length [1..n]
     \<and> map Element_ID df = [1..n] \<and> map Aspect_Ratio df = ars \<and> map Jacobian df = js
     \<and> map Skewness df = ss \<and> map Element_Quality df = qs"
    by (rule DataFrame_of_columns_ok) (simp_all add: l1 l2 l3 l4)
  then obtain df where df: "DataFrame_of_columns [1..n] ars js ss qs = Inr df"
    and props: "length df = nat n" "map Element_ID df = [1..n]" "map Aspect_Ratio df = ars"
      "map Jacobian df = js" "map Skewness df = ss" "map Element_Quality df = qs"
    by auto
  have "build_mesh_data np n = Inr (df, s4)"
    using u1 u2 u3 u4 df by (simp add: build_mesh_data_def)
  with u1 u2 u3 u4 props show ?thesis by blast
qed

lemma build_mesh_data_nonneg:
  assumes "0 \<le> n"
  shows "\<exists>df s. build_mesh_data np n = Inr (df, s) \<and> length df = nat n
     \<and> map Element_ID df = [1..n]"
  using build_mesh_data_columns [OF assms, of np] by blast

lemma build_mesh_data_range:
  assumes smp: "\<And>t. 0 \<le> fst (np_random_sample np t) \<and> fst (np_random_sample np t) < 1"
    and b: "build_mesh_data np n = Inr (df, s)" and r: "r \<in> set df"
  shows "1.0 \<le> Aspect_Ratio r \<and> Aspect_Ratio r \<le> 5.0
     \<and> 0.3 \<le> Jacobian r \<and> Jacobian r \<le> 1.0
     \<and> 0.0 \<le> Skewness r \<and> Skewness r \<le> 0.8
     \<and> 0.4 \<le> Element_Quality r \<and> Element_Quality r \<le> 1.0"
proof -
  have n: "0 \<le> n"
  proof (rule ccontr)
    assume "\<not> 0 \<le> n"
    then show False using b build_mesh_data_neg [of n np] by simp
  qed
  from build_mesh_data_columns [OF n, of np] b
  obtain ars js ss qs s0 s1 s2 s3 where
    u1: "uniform np 1.0 5.0 n s0 = Inr (ars, s1)" and
    u2: "uniform np 0.3 1.0 n s1 = Inr (js, s2)" and
    u3: "uniform np 0.0 0.8 n s2 = Inr (ss, s3)" and
    u4: "uniform np 0.4 1.0 n s3 = Inr (qs, s)" and
    cols: "map Aspect_Ratio df = ars" "map Jacobian df = js" "map Skewness df = ss"
      "map Element_Quality df = qs"
    by auto
  have "Aspect_Ratio r \<in> set ars" "Jacobian r \<in> set js" "Skewness r \<in> set ss"
    "Element_Quality r \<in> set qs"
    using r cols by auto
  then show ?thesis
    using uniform_range [OF smp _ u1] uniform_range [OF smp _ u2]
      uniform_range [OF smp _ u3] uniform_range [OF smp _ u4]
    by simp
qed

lemma generate_mesh_unfold:
  "generate_mesh np self w =
     (case build_mesh_data np (num_elements self) of
        Inl e \<Rightarrow> Inl e
      | Inr (df, s) \<Rightarrow>
          Inr (length (frames w), self\<lparr>mesh_data := Some (length (frames w))\<rparr>,
               \<lparr>frames = frames w @ [df], rng = s\<rparr>))"
  by (simp add: generate_mesh_def alloc_def split: sum.splits prod.splits)

section \<open>Properties of the generator\<close>

text \<open>
  Claim C6, as the code has it: \<^verbatim>\<open>generate_mesh\<close> fails exactly on a negative element
  count, with the \<^verbatim>\<open>ValueError\<close> of \<^verbatim>\<open>np.random.uniform\<close> for a negative size. For
  every count from 0 on it succeeds, stores the new frame in \<open>self.mesh_data\<close> and
  returns it; the frame has as many rows as the count, none for 0.
\<close>

theorem generate_mesh_fails_iff_negative:
  "(num_elements self < 0 \<longrightarrow> generate_mesh np self w = Inl ValueError)
   \<and> (0 \<le> num_elements self \<longrightarrow>
        (\<exists>a self' w'. generate_mesh np self w = Inr (a, self', w')
           \<and> mesh_data self' = Some a
           \<and> length (frames w' ! a) = nat (num_elements self)))"
proof (intro conjI impI)
  assume "num_elements self < 0"
  then show "generate_mesh np self w = Inl ValueError"
    by (simp add: generate_mesh_unfold build_mesh_data_neg)
next
  assume "0 \<le> num_elements self"
  from build_mesh_data_nonneg [OF this, of np]
  obtain df s where "build_mesh_data np (num_elements self) = Inr (df, s)"
    and "length df = nat (num_elements self)" by blast
  then show "\<exists>a self' w'. generate_mesh np self w = Inr (a, self', w')
           \<and> mesh_data self' = Some a
           \<and> length (frames w' ! a) = nat (num_elements self)"
    by (simp add: generate_mesh_unfold)
qed

theorem generate_mesh_fails_iff_negative_witness:
  "generate_mesh demo_random \<lparr>num_elements = - 1, mesh_data = None\<rparr> \<lparr>frames = [], rng = 0\<rparr>
     = Inl ValueError
   \<and> (\<exists>a self' w'.
        generate_mesh demo_random \<lparr>num_elements = 2, mesh_data = None\<rparr> \<lparr>frames = [], rng = 0\<rparr>
          = Inr (a, self', w')
        \<and> mesh_data self' = Some a \<and> length (frames w' ! a) = 2)"
  using generate_mesh_fails_iff_negative
          [of "\<lparr>num_elements = - 1, mesh_data = None\<rparr>" demo_random "\<lparr>frames = [], rng = 0\<rparr>"]
        generate_mesh_fails_iff_negative
          [of "\<lparr>num_elements = 2, mesh_data = None\<rparr>" demo_random "\<lparr>frames = [], rng = 0\<rparr>"]
  by simp

text \<open>
  Claim C6 as stated (failure for every N <= 0) does not hold at N = 0:
  \<^verbatim>\<open>np.arange(1, 1)\<close> and \<^verbatim>\<open>np.random.uniform(low, high, 0)\<close> are empty arrays, and
  \<^verbatim>\<open>generate_mesh\<close> returns an empty DataFrame.
\<close>

theorem generate_mesh_zero_succeeds:
  "generate_mesh demo_random \<lparr>num_elements = 0, mesh_data = None\<rparr> \<lparr>frames = [], rng = 0\<rparr>
     = Inr (0, \<lparr>num_elements = 0, mesh_data = Some 0\<rparr>, \<lparr>frames = [[]], rng = 42\<rparr>)"
  by (simp add: generate_mesh_def build_mesh_data_def uniform_def DataFrame_of_columns_def
      alloc_def demo_random_def)

text \<open>
  Claim C9: for every N > 0, with a generator whose \<^verbatim>\<open>random_sample\<close> lies in [0, 1),
  \<^verbatim>\<open>generate_mesh\<close> succeeds with exactly N records, whose Element_ID values are
  1..N in order, and every record has Aspect_Ratio in [1.0, 5.0], Jacobian in
  [0.3, 1.0], Skewness in [0.0, 0.8] and Element_Quality in [0.4, 1.0].
\<close>

theorem generate_mesh_output:
  assumes "\<forall>t. 0 \<le> fst (np_random_sample np t) \<and> fst (np_random_sample np t) < 1"
    and "0 < num_elements self"
  shows "\<exists>a self' w'. generate_mesh np self w = Inr (a, self', w')
     \<and> mesh_data self' = Some a
     \<and> length (frames w' ! a) = nat (num_elements self)
     \<and> map Element_ID (frames w' ! a) = [1 .. num_elements self]
     \<and> (\<forall>r \<in> set (frames w' ! a).
           1.0 \<le> Aspect_Ratio r \<and> Aspect_Ratio r \<le> 5.0
         \<and> 0.3 \<le> Jacobian r \<and> Jacobian r \<le> 1.0
         \<and> 0.0 \<le> Skewness r \<and> Skewness r \<le> 0.8
         \<and> 0.4 \<le> Element_Quality r \<and> Element_Quality r \<le> 1.0)"
proof -
  have n: "0 \<le> num_elements self" using assms(2) by simp
  from build_mesh_data_nonneg [OF n, of np]
  obtain df s where b: "build_mesh_data np (num_elements self) = Inr (df, s)"
    and len: "length df = nat (num_elements self)"
    and ids: "map Element_ID df = [1 .. num_elements self]" by blast
  have smp: "\<And>t. 0 \<le> fst (np_random_sample np t) \<and> fst (np_random_sample np t) < 1"
    using assms(1) by blast
  have rng: "\<forall>r \<in> set df.
           1.0 \<le> Aspect_Ratio r \<and> Aspect_Ratio r \<le> 5.0
         \<and> 0.3 \<le> Jacobian r \<and> Jacobian r \<le> 1.0
         \<and> 0.0 \<le> Skewness r \<and> Skewness r \<le> 0.8
         \<and> 0.4 \<le> Element_Quality r \<and> Element_Quality r \<le> 1.0"
    using build_mesh_data_range [OF smp b] by blast
  show ?thesis
    using b len ids rng by (simp add: generate_mesh_unfold)
qed

theorem generate_mesh_output_witness:
  "\<exists>a self' w'.
     generate_mesh demo_random \<lparr>num_elements = 3, mesh_data = None\<rparr> \<lparr>frames = [], rng = 0\<rparr>
       = Inr (a, self', w')
     \<and> mesh_data self' = Some a
     \<and> length (frames w' ! a) = 3
     \<and> map Element_ID (frames w' ! a) = [1, 2, 3]
     \<and> (\<forall>r \<in> set (frames w' ! a).
           1.0 \<le> Aspect_Ratio r \<and> Aspect_Ratio r \<le> 5.0
         \<and> 0.3 \<le> Jacobian r \<and> Jacobian r \<le> 1.0
         \<and> 0.0 \<le> Skewness r \<and> Skewness r \<le> 0.8
         \<and> 0.4 \<le> Element_Quality r \<and> Element_Quality r \<le> 1.0)"
proof -
  have h1: "\<forall>t. 0 \<le> fst (np_random_sample demo_random t)
               \<and> fst (np_random_sample demo_random t) < 1"
    by (simp add: demo_random_def)
  have h2: "0 < num_elements \<lparr>num_elements = 3, mesh_data = None\<rparr>" by simp
  have ids: "[1 .. 3::int] = [1, 2, 3]" by (simp add: upto.simps)
  show ?thesis
    using generate_mesh_output [OF h1 h2, of "\<lparr>frames = [], rng = 0\<rparr>"] ids by simp
qed

section \<open>The adjuster: facts and properties\<close>

lemma ensure_mesh_data_Some:
  "mesh_data self = Some a \<Longrightarrow> ensure_mesh_data np self w = Inr (a, self, w)"
  by (simp add: ensure_mesh_data_def)

lemma ensure_mesh_data_None:
  "mesh_data self = None \<Longrightarrow> ensure_mesh_data np self w = generate_mesh np self w"
  by (simp add: ensure_mesh_data_def)

lemma generate_mesh_Inr:
  assumes "generate_mesh np self w = Inr (a, self1, w1)"
  shows "\<exists>df s. build_mesh_data np (num_elements self) = Inr (df, s)
     \<and> a = length (frames w) \<and> self1 = self\<lparr>mesh_data := Some a\<rparr>
     \<and> w1 = \<lparr>frames = frames w @ [df], rng = s\<rparr>"
  using assms by (auto simp: generate_mesh_unfold split: sum.splits)


lemma foldl_assign_frame:
  "a < length (frames w) \<Longrightarrow>
   foldl (\<lambda>v stmt. assign_frame a stmt v) w fs
     = w\<lparr>frames := (frames w)[a := foldl (\<lambda>d f. f d) (frames w ! a) fs]\<rparr>"
proof (induction fs arbitrary: w)
  case Nil
  then show ?case by simp
next
  case (Cons f fs)
  have "a < length (frames (assign_frame a f w))"
    using Cons.prems by (simp add: assign_frame_def)
  from Cons.IH [OF this] Cons.prems show ?case
    by (simp add: assign_frame_def)
qed

lemma optimize_statements_row:
  "foldl (\<lambda>d f. f d) df optimize_statements = map optimize_row df"
  by (simp add: optimize_statements_def optimize_row_def)

lemma optimize_mesh_unfold:
  assumes "ensure_mesh_data np self w = Inr (src, self1, w1)"
  shows "optimize_mesh np self w
     = Inr (length (frames w1), self1,
            w1\<lparr>frames := frames w1 @ [map optimize_row (frames w1 ! src)]\<rparr>)"
  using assms
  by (simp add: optimize_mesh_def alloc_def foldl_assign_frame optimize_statements_row)

lemma clip_range: "lower \<le> upper \<Longrightarrow> lower \<le> clip lower upper x \<and> clip lower upper x \<le> upper"
  by (simp add: clip_def)

lemma optimize_row_range:
  "1.0 \<le> Aspect_Ratio (optimize_row r) \<and> Aspect_Ratio (optimize_row r) \<le> 4.0
   \<and> 0.3 \<le> Jacobian (optimize_row r) \<and> Jacobian (optimize_row r) \<le> 1.0
   \<and> 0.0 \<le> Skewness (optimize_row r) \<and> Skewness (optimize_row r) \<le> 0.7
   \<and> 0.5 \<le> Element_Quality (optimize_row r) \<and> Element_Quality (optimize_row r) \<le> 1.0"
  using clip_range [of "1.0" "4.0"] clip_range [of "0.3" "1.0"] clip_range [of "0.0" "0.7"]
    clip_range [of "0.5" "1.0"]
  by (simp add: optimize_row_def)

lemma optimize_row_Element_ID: "Element_ID (optimize_row r) = Element_ID r"
  by (simp add: optimize_row_def)

lemma optimize_mesh_Inr:
  assumes "optimize_mesh np self w = Inr (a, self', w')"
  shows "\<exists>src w1. ensure_mesh_data np self w = Inr (src, self', w1)
     \<and> a = length (frames w1)
     \<and> w' = w1\<lparr>frames := frames w1 @ [map optimize_row (frames w1 ! src)]\<rparr>"
proof (cases "ensure_mesh_data np self w")
  case (Inl e)
  then show ?thesis using assms by (simp add: optimize_mesh_def)
next
  case (Inr t)
  obtain src self1 w1 where t: "t = (src, self1, w1)" by (cases t)
  from optimize_mesh_unfold [of np self w src self1 w1] Inr t assms show ?thesis by simp
qed

text \<open>
  Claim C2: whatever dataset \<^verbatim>\<open>optimize_mesh\<close> works on, every record of its result
  has Aspect_Ratio in [1.0, 4.0], Jacobian in [0.3, 1.0], Skewness in [0.0, 0.7] and
  Element_Quality in [0.5, 1.0], whether or not a threshold condition held for the
  record: the four clip statements run on every row.
\<close>

theorem optimize_mesh_clamped:
  assumes "optimize_mesh np self w = Inr (a, self', w')"
  shows "\<forall>r \<in> set (frames w' ! a).
           1.0 \<le> Aspect_Ratio r \<and> Aspect_Ratio r \<le> 4.0
         \<and> 0.3 \<le> Jacobian r \<and> Jacobian r \<le> 1.0
         \<and> 0.0 \<le> Skewness r \<and> Skewness r \<le> 0.7
         \<and> 0.5 \<le> Element_Quality r \<and> Element_Quality r \<le> 1.0"
proof -
  from optimize_mesh_Inr [OF assms] obtain src w1 where
    a: "a = length (frames w1)" and
    w': "w' = w1\<lparr>frames := frames w1 @ [map optimize_row (frames w1 ! src)]\<rparr>"
    by blast
  have "frames w' ! a = map optimize_row (frames w1 ! src)"
    using a w' by simp
  then show ?thesis using optimize_row_range by auto
qed

theorem optimize_mesh_clamped_witness:
  "\<exists>a self' w'.
     optimize_mesh demo_random \<lparr>num_elements = 1, mesh_data = Some 0\<rparr>
       \<lparr>frames = [[\<lparr>Element_ID = 1, Aspect_Ratio = 0.5, Jacobian = 1.2, Skewness = - 0.1,
                     Element_Quality = 1.5\<rparr>]], rng = 0\<rparr> = Inr (a, self', w')
     \<and> frames w' ! a = [\<lparr>Element_ID = 1, Aspect_Ratio = 1, Jacobian = 1, Skewness = 0,
                            Element_Quality = 1\<rparr>]
     \<and> (\<forall>r \<in> set (frames w' ! a).
           1.0 \<le> Aspect_Ratio r \<and> Aspect_Ratio r \<le> 4.0
         \<and> 0.3 \<le> Jacobian r \<and> Jacobian r \<le> 1.0
         \<and> 0.0 \<le> Skewness r \<and> Skewness r \<le> 0.7
         \<and> 0.5 \<le> Element_Quality r \<and> Element_Quality r \<le> 1.0)"
proof -
  let ?row = "\<lparr>Element_ID = 1, Aspect_Ratio = 0.5, Jacobian = 1.2, Skewness = - 0.1,
               Element_Quality = 1.5\<rparr>"
  let ?out = "\<lparr>Element_ID = 1, Aspect_Ratio = 1, Jacobian = 1, Skewness = 0,
               Element_Quality = 1::real\<rparr>"
  have run: "optimize_mesh demo_random \<lparr>num_elements = 1, mesh_data = Some 0\<rparr>
       \<lparr>frames = [[?row]], rng = 0\<rparr>
     = Inr (1, \<lparr>num_elements = 1, mesh_data = Some 0\<rparr>, \<lparr>frames = [[?row], [?out]], rng = 0\<rparr>)"
    by (simp add: optimize_mesh_def ensure_mesh_data_def alloc_def assign_frame_def
        optimize_statements_def clip_def)
  from optimize_mesh_clamped [OF run] run show ?thesis by simp
qed

text \<open>
  Claim C4: with a dataset cached, \<^verbatim>\<open>optimize_mesh\<close> returns a new object (not the
  cached one, nor any object that existed before) with as many records as the cached
  dataset, the same Element_ID column, and row i of the result the adjusted row i of the
  input; the simulator, the cached dataset, every other existing object and the
  generator's state are what they were before the call.
\<close>

theorem optimize_mesh_frame:
  assumes "mesh_data self = Some src" and "src < length (frames w)"
    and "optimize_mesh np self w = Inr (a, self', w')"
  shows "self' = self \<and> a \<noteq> src \<and> length (frames w) \<le> a
     \<and> frames w' ! src = frames w ! src
     \<and> (\<forall>i < length (frames w). frames w' ! i = frames w ! i)
     \<and> rng w' = rng w
     \<and> length (frames w' ! a) = length (frames w ! src)
     \<and> map Element_ID (frames w' ! a) = map Element_ID (frames w ! src)
     \<and> (\<forall>i < length (frames w ! src). frames w' ! a ! i = optimize_row (frames w ! src ! i))"
proof -
  have e: "ensure_mesh_data np self w = Inr (src, self, w)"
    using assms(1) by (rule ensure_mesh_data_Some)
  from optimize_mesh_unfold [OF e] assms(3)
  have a: "a = length (frames w)" and self': "self' = self"
    and w': "w' = w\<lparr>frames := frames w @ [map optimize_row (frames w ! src)]\<rparr>"
    by simp_all
  have new: "frames w' ! a = map optimize_row (frames w ! src)"
    using a w' by simp
  have old: "\<forall>i < length (frames w). frames w' ! i = frames w ! i"
    using w' by (simp add: nth_append)
  have ids: "map Element_ID (frames w' ! a) = map Element_ID (frames w ! src)"
    using new by (simp add: optimize_row_Element_ID comp_def)
  show ?thesis
    using a self' w' new old ids assms(2) by simp
qed

theorem optimize_mesh_frame_witness:
  "\<exists>a self' w'.
     optimize_mesh demo_random \<lparr>num_elements = 2, mesh_data = Some 0\<rparr>
       \<lparr>frames = [[\<lparr>Element_ID = 1, Aspect_Ratio = 4.0, Jacobian = 0.4, Skewness = 0.7,
                     Element_Quality = 0.4\<rparr>,
                   \<lparr>Element_ID = 2, Aspect_Ratio = 2.0, Jacobian = 0.8, Skewness = 0.2,
                     Element_Quality = 0.9\<rparr>]], rng = 5\<rparr> = Inr (a, self', w')
     \<and> self' = \<lparr>num_elements = 2, mesh_data = Some 0\<rparr> \<and> a \<noteq> 0
     \<and> frames w' ! 0 = [\<lparr>Element_ID = 1, Aspect_Ratio = 4.0, Jacobian = 0.4, Skewness = 0.7,
                            Element_Quality = 0.4\<rparr>,
                          \<lparr>Element_ID = 2, Aspect_Ratio = 2.0, Jacobian = 0.8, Skewness = 0.2,
                            Element_Quality = 0.9\<rparr>]
     \<and> rng w' = 5
     \<and> length (frames w' ! a) = 2
     \<and> map Element_ID (frames w' ! a) = [1, 2]"
proof -
  let ?r1 = "\<lparr>Element_ID = 1, Aspect_Ratio = 4.0, Jacobian = 0.4, Skewness = 0.7,
               Element_Quality = 0.4::real\<rparr>"
  let ?r2 = "\<lparr>Element_ID = 2, Aspect_Ratio = 2.0, Jacobian = 0.8, Skewness = 0.2,
               Element_Quality = 0.9::real\<rparr>"
  let ?self = "\<lparr>num_elements = 2, mesh_data = Some 0\<rparr>"
  let ?w = "\<lparr>frames = [[?r1, ?r2]], rng = 5::nat\<rparr>"
  have h1: "mesh_data ?self = Some 0" by simp
  have h2: "0 < length (frames ?w)" by simp
  obtain a self' w' where run: "optimize_mesh demo_random ?self ?w = Inr (a, self', w')"
    using optimize_mesh_unfold [OF ensure_mesh_data_Some [OF h1], of demo_random ?w] by blast
  from optimize_mesh_frame [OF h1 h2 run] have props:
    "self' = ?self \<and> a \<noteq> 0 \<and> frames w' ! 0 = [?r1, ?r2] \<and> rng w' = 5
     \<and> length (frames w' ! a) = 2 \<and> map Element_ID (frames w' ! a) = [1, 2]"
    by simp
  show ?thesis
  proof (intro exI conjI)
    show "optimize_mesh demo_random ?self ?w = Inr (a, self', w')" by (rule run)
  qed (use props in simp_all)
qed

lemma map_fixed_iff: "map f xs = xs \<longleftrightarrow> (\<forall>x \<in> set xs. f x = x)"
  by (induction xs) auto

lemma rescale_fixed_Aspect_Ratio:
  "1.0 \<le> x \<Longrightarrow> x \<le> 4.0 \<Longrightarrow>
   clip 1.0 4.0 (if x > 3.5 then x * 0.7 else x) = x \<longleftrightarrow> \<not> x > (3.5::real)"
  by (auto simp: clip_def min_def max_def)

lemma rescale_fixed_Jacobian:
  "0.3 \<le> x \<Longrightarrow> x \<le> 1.0 \<Longrightarrow>
   clip 0.3 1.0 (if x < 0.5 then x * 1.3 else x) = x \<longleftrightarrow> \<not> x < (0.5::real)"
  by (auto simp: clip_def min_def max_def)

lemma rescale_fixed_Skewness:
  "0.0 \<le> x \<Longrightarrow> x \<le> 0.7 \<Longrightarrow>
   clip 0.0 0.7 (if x > 0.6 then x * 0.6 else x) = x \<longleftrightarrow> \<not> x > (0.6::real)"
  by (auto simp: clip_def min_def max_def)

lemma rescale_fixed_Element_Quality:
  "0.5 \<le> x \<Longrightarrow> x \<le> 1.0 \<Longrightarrow>
   clip 0.5 1.0 (if x < 0.6 then x * 1.25 else x) = x \<longleftrightarrow> \<not> x < (0.6::real)"
  by (auto simp: clip_def min_def max_def)

lemma optimize_row_fixed_iff:
  assumes "1.0 \<le> Aspect_Ratio r" "Aspect_Ratio r \<le> 4.0"
    "0.3 \<le> Jacobian r" "Jacobian r \<le> 1.0"
    "0.0 \<le> Skewness r" "Skewness r \<le> 0.7"
    "0.5 \<le> Element_Quality r" "Element_Quality r \<le> 1.0"
  shows "optimize_row r = r \<longleftrightarrow> \<not> spec_poor r"
proof -
  have "optimize_row r = r \<longleftrightarrow>
      clip 1.0 4.0 (if Aspect_Ratio r > 3.5 then Aspect_Ratio r * 0.7 else Aspect_Ratio r)
        = Aspect_Ratio r
    \<and> clip 0.3 1.0 (if Jacobian r < 0.5 then Jacobian r * 1.3 else Jacobian r) = Jacobian r
    \<and> clip 0.0 0.7 (if Skewness r > 0.6 then Skewness r * 0.6 else Skewness r) = Skewness r
    \<and> clip 0.5 1.0
        (if Element_Quality r < 0.6 then Element_Quality r * 1.25 else Element_Quality r)
        = Element_Quality r"
    by (cases r) (simp add: optimize_row_def)
  also have "\<dots> \<longleftrightarrow> \<not> spec_poor r"
    using rescale_fixed_Aspect_Ratio [OF assms(1,2)] rescale_fixed_Jacobian [OF assms(3,4)]
      rescale_fixed_Skewness [OF assms(5,6)] rescale_fixed_Element_Quality [OF assms(7,8)]
    by (simp only: spec_poor_def de_Morgan_disj)
  finally show ?thesis .
qed

lemma optimize_twice_iff:
  "map optimize_row (map optimize_row df) = map optimize_row df
     \<longleftrightarrow> (\<forall>r \<in> set (map optimize_row df). \<not> spec_poor r)"
proof -
  have "\<forall>r \<in> set (map optimize_row df). optimize_row r = r \<longleftrightarrow> \<not> spec_poor r"
  proof
    fix r assume "r \<in> set (map optimize_row df)"
    then obtain x where r: "r = optimize_row x" by auto
    show "optimize_row r = r \<longleftrightarrow> \<not> spec_poor r"
      unfolding r using optimize_row_range [of x] by (intro optimize_row_fixed_iff) simp_all
  qed
  then show ?thesis
    by (simp only: map_fixed_iff [of optimize_row "map optimize_row df"]) blast
qed

text \<open>
  Claim C3, as the code has it: a second run of \<^verbatim>\<open>optimize_mesh\<close> on the result of a
  first run (the simulator's \<open>mesh_data\<close> set to that result) succeeds, and it returns
  the dataset unchanged exactly when no record of the adjusted dataset still meets a
  threshold condition. All values are within the clamp bounds, but the scaling
  statements run again on the records that are still flagged.
\<close>

theorem optimize_mesh_twice:
  assumes "optimize_mesh np self w = Inr (a, self1, w1)"
  shows "\<exists>b w2. optimize_mesh np (self1\<lparr>mesh_data := Some a\<rparr>) w1
                  = Inr (b, self1\<lparr>mesh_data := Some a\<rparr>, w2)
     \<and> (frames w2 ! b = frames w1 ! a \<longleftrightarrow> (\<forall>r \<in> set (frames w1 ! a). \<not> spec_poor r))"
proof -
  from optimize_mesh_Inr [OF assms] obtain src w0 where
    a: "a = length (frames w0)" and
    w1: "w1 = w0\<lparr>frames := frames w0 @ [map optimize_row (frames w0 ! src)]\<rparr>"
    by blast
  have first: "frames w1 ! a = map optimize_row (frames w0 ! src)"
    using a w1 by simp
  let ?self2 = "self1\<lparr>mesh_data := Some a\<rparr>"
  have e: "ensure_mesh_data np ?self2 w1 = Inr (a, ?self2, w1)"
    by (rule ensure_mesh_data_Some) simp
  let ?w2 = "w1\<lparr>frames := frames w1 @ [map optimize_row (frames w1 ! a)]\<rparr>"
  have run: "optimize_mesh np ?self2 w1 = Inr (length (frames w1), ?self2, ?w2)"
    by (rule optimize_mesh_unfold [OF e])
  have second: "frames ?w2 ! length (frames w1) = map optimize_row (frames w1 ! a)"
    by simp
  have "map optimize_row (frames w1 ! a) = frames w1 ! a
      \<longleftrightarrow> (\<forall>r \<in> set (frames w1 ! a). \<not> spec_poor r)"
    using optimize_twice_iff [of "frames w0 ! src"] by (simp only: first)
  then have "frames ?w2 ! length (frames w1) = frames w1 ! a
      \<longleftrightarrow> (\<forall>r \<in> set (frames w1 ! a). \<not> spec_poor r)"
    by (simp only: second)
  with run show ?thesis by blast
qed

theorem optimize_mesh_twice_witness:
  "\<exists>b w2.
     optimize_mesh demo_random (\<lparr>num_elements = 1, mesh_data = Some 0\<rparr>\<lparr>mesh_data := Some 1\<rparr>)
       \<lparr>frames = [[\<lparr>Element_ID = 1, Aspect_Ratio = 4.0, Jacobian = 0.8, Skewness = 0.2,
                     Element_Quality = 0.9\<rparr>],
                  [\<lparr>Element_ID = 1, Aspect_Ratio = 2.8, Jacobian = 0.8, Skewness = 0.2,
                     Element_Quality = 0.9\<rparr>]], rng = 0\<rparr>
       = Inr (b, \<lparr>num_elements = 1, mesh_data = Some 0\<rparr>\<lparr>mesh_data := Some 1\<rparr>, w2)
     \<and> frames w2 ! b = [\<lparr>Element_ID = 1, Aspect_Ratio = 2.8, Jacobian = 0.8, Skewness = 0.2,
                           Element_Quality = 0.9\<rparr>]"
proof -
  let ?r = "\<lparr>Element_ID = 1, Aspect_Ratio = 4.0, Jacobian = 0.8, Skewness = 0.2,
              Element_Quality = 0.9::real\<rparr>"
  let ?r' = "\<lparr>Element_ID = 1, Aspect_Ratio = 2.8, Jacobian = 0.8, Skewness = 0.2,
               Element_Quality = 0.9::real\<rparr>"
  let ?self = "\<lparr>num_elements = 1, mesh_data = Some 0\<rparr>"
  let ?w1 = "\<lparr>frames = [[?r], [?r']], rng = 0::nat\<rparr>"
  have run: "optimize_mesh demo_random ?self \<lparr>frames = [[?r]], rng = 0\<rparr> = Inr (1, ?self, ?w1)"
    by (simp add: optimize_mesh_def ensure_mesh_data_def alloc_def assign_frame_def
        optimize_statements_def clip_def)
  have good: "\<forall>r \<in> set (frames ?w1 ! 1). \<not> spec_poor r"
    by (simp add: spec_poor_def)
  from optimize_mesh_twice [OF run] good show ?thesis by simp
qed

text \<open>
  Claim C3 as stated (a second run changes nothing) does not hold: a record with
  Jacobian 0.3, a value the generator can draw, is scaled to 0.39 by the first run;
  0.39 is still below the threshold 0.5, so the second run scales it again, to 0.507.
\<close>

theorem optimize_mesh_not_idempotent:
  "optimize_mesh demo_random \<lparr>num_elements = 1, mesh_data = Some 0\<rparr>
     \<lparr>frames = [[\<lparr>Element_ID = 1, Aspect_Ratio = 2.0, Jacobian = 0.3, Skewness = 0.1,
                   Element_Quality = 0.9\<rparr>]], rng = 0\<rparr>
   = Inr (1, \<lparr>num_elements = 1, mesh_data = Some 0\<rparr>,
          \<lparr>frames = [[\<lparr>Element_ID = 1, Aspect_Ratio = 2.0, Jacobian = 0.3, Skewness = 0.1,
                        Element_Quality = 0.9\<rparr>],
                     [\<lparr>Element_ID = 1, Aspect_Ratio = 2.0, Jacobian = 0.39, Skewness = 0.1,
                        Element_Quality = 0.9\<rparr>]], rng = 0\<rparr>)
   \<and> optimize_mesh demo_random \<lparr>num_elements = 1, mesh_data = Some 1\<rparr>
     \<lparr>frames = [[\<lparr>Element_ID = 1, Aspect_Ratio = 2.0, Jacobian = 0.3, Skewness = 0.1,
                   Element_Quality = 0.9\<rparr>],
                [\<lparr>Element_ID = 1, Aspect_Ratio = 2.0, Jacobian = 0.39, Skewness = 0.1,
                   Element_Quality = 0.9\<rparr>]], rng = 0\<rparr>
   = Inr (2, \<lparr>num_elements = 1, mesh_data = Some 1\<rparr>,
          \<lparr>frames = [[\<lparr>Element_ID = 1, Aspect_Ratio = 2.0, Jacobian = 0.3, Skewness = 0.1,
                        Element_Quality = 0.9\<rparr>],
                     [\<lparr>Element_ID = 1, Aspect_Ratio = 2.0, Jacobian = 0.39, Skewness = 0.1,
                        Element_Quality = 0.9\<rparr>],
                     [\<lparr>Element_ID = 1, Aspect_Ratio = 2.0, Jacobian = 0.507, Skewness = 0.1,
                        Element_Quality = 0.9\<rparr>]], rng = 0\<rparr>)
   \<and> [\<lparr>Element_ID = 1, Aspect_Ratio = 2.0, Jacobian = 0.507, Skewness = 0.1,
         Element_Quality = 0.9\<rparr>]
     \<noteq> [\<lparr>Element_ID = 1, Aspect_Ratio = 2.0, Jacobian = 0.39, Skewness = 0.1,
           Element_Quality = 0.9::real\<rparr>]"
  by (simp add: optimize_mesh_def ensure_mesh_data_def alloc_def assign_frame_def
      optimize_statements_def clip_def)

section \<open>The classifier and lazy generation: facts and properties\<close>

lemma poor_mask_eq: "poor_mask df = map spec_poor df"
  by (induction df) (simp_all add: poor_mask_def spec_poor_def)

lemma select_rows_map: "select_rows df (map P df) = filter P df"
  by (induction df) (simp_all add: select_rows_def)

lemma analyze_mesh_quality_unfold:
  assumes "ensure_mesh_data np self w = Inr (src, self1, w1)" and "src < length (frames w1)"
  shows "analyze_mesh_quality np self w =
     (if frames w1 ! src = [] then Inl ZeroDivisionError
      else Inr ((\<lparr>Total_Elements = length (frames w1 ! src),
                  Poor_Quality_Elements = length (filter spec_poor (frames w1 ! src)),
                  Percentage_Poor =
                    real (length (filter spec_poor (frames w1 ! src)))
                      / real (length (frames w1 ! src)) * 100,
                  Avg_Aspect_Ratio = Series_mean (map Aspect_Ratio (frames w1 ! src)),
                  Avg_Jacobian = Series_mean (map Jacobian (frames w1 ! src)),
                  Avg_Skewness = Series_mean (map Skewness (frames w1 ! src)),
                  Avg_Element_Quality = Series_mean (map Element_Quality (frames w1 ! src))\<rparr>,
                 length (frames w1)), self1,
                w1\<lparr>frames := frames w1 @ [filter spec_poor (frames w1 ! src)]\<rparr>))"
  using assms
  by (simp add: analyze_mesh_quality_def alloc_def poor_mask_eq select_rows_map py_truediv_def
      nth_append)

lemma analyze_mesh_quality_succeeds:
  assumes "mesh_data self = Some src" and "src < length (frames w)" and "frames w ! src \<noteq> []"
  shows "\<exists>res w'. analyze_mesh_quality np self w = Inr (res, self, w')"
  using analyze_mesh_quality_unfold [OF ensure_mesh_data_Some [OF assms(1)] assms(2), of np]
    assms(3)
  by simp



lemma fresh_negative:
  assumes "mesh_data self = None" and "num_elements self < 0"
  shows "analyze_mesh_quality np self w = Inl ValueError \<and> optimize_mesh np self w = Inl ValueError"
proof -
  have "ensure_mesh_data np self w = Inl ValueError"
    using assms by (simp add: ensure_mesh_data_None generate_mesh_unfold build_mesh_data_neg)
  then show ?thesis
    by (simp add: analyze_mesh_quality_def optimize_mesh_def)
qed

lemma fresh_nonnegative:
  assumes "mesh_data self = None" and "0 \<le> num_elements self"
  shows "(num_elements self = 0 \<longrightarrow> analyze_mesh_quality np self w = Inl ZeroDivisionError)
     \<and> (0 < num_elements self \<longrightarrow> (\<exists>res. analyze_mesh_quality np self w = Inr res))
     \<and> (\<exists>res. optimize_mesh np self w = Inr res)"
proof -
  from build_mesh_data_nonneg [OF assms(2), of np]
  obtain df s where b: "build_mesh_data np (num_elements self) = Inr (df, s)"
    and len: "length df = nat (num_elements self)" by blast
  let ?a = "length (frames w)"
  let ?w1 = "\<lparr>frames = frames w @ [df], rng = s\<rparr>"
  have e: "ensure_mesh_data np self w = Inr (?a, self\<lparr>mesh_data := Some ?a\<rparr>, ?w1)"
    using assms(1) b by (simp add: ensure_mesh_data_None generate_mesh_unfold)
  have src: "?a < length (frames ?w1)" by simp
  have fr: "frames ?w1 ! ?a = df" by simp
  have empty: "num_elements self = 0 \<Longrightarrow> df = []" using len by simp
  have nonempty: "0 < num_elements self \<Longrightarrow> df \<noteq> []" using len by auto
  have an0: "num_elements self = 0 \<Longrightarrow> analyze_mesh_quality np self w = Inl ZeroDivisionError"
    using analyze_mesh_quality_unfold [OF e src] empty by (simp add: fr)
  have an1: "0 < num_elements self \<Longrightarrow> \<exists>res. analyze_mesh_quality np self w = Inr res"
    using analyze_mesh_quality_unfold [OF e src] nonempty by (simp add: fr)
  have op: "\<exists>res. optimize_mesh np self w = Inr res"
    using optimize_mesh_unfold [OF e] by simp
  show ?thesis using an0 an1 op by simp
qed

text \<open>
  Claim C10, as the code has it: with no dataset cached, \<^verbatim>\<open>analyze_mesh_quality\<close> and
  \<^verbatim>\<open>optimize_mesh\<close> first call \<^verbatim>\<open>generate_mesh\<close>, so each gives what
  \<^verbatim>\<open>generate_mesh\<close> followed by the operation gives. For a positive element count
  both succeed. For the count 0 \<^verbatim>\<open>optimize_mesh\<close> succeeds and
  \<^verbatim>\<open>analyze_mesh_quality\<close> raises \<^verbatim>\<open>ZeroDivisionError\<close> (line 46, on the empty
  dataset); for a negative count both raise the \<^verbatim>\<open>ValueError\<close> of \<^verbatim>\<open>generate_mesh\<close>.
  With a dataset cached, neither regenerates it: the simulator and the generator's state
  are unchanged, no existing object changes, and the only new object is the operation's
  result.
\<close>

theorem lazy_generation:
  "(mesh_data self = None \<longrightarrow>
      analyze_mesh_quality np self w
        = (case generate_mesh np self w of
             Inl e \<Rightarrow> Inl e
           | Inr (a, self1, w1) \<Rightarrow> analyze_mesh_quality np self1 w1)
    \<and> optimize_mesh np self w
        = (case generate_mesh np self w of
             Inl e \<Rightarrow> Inl e
           | Inr (a, self1, w1) \<Rightarrow> optimize_mesh np self1 w1)
    \<and> (0 < num_elements self \<longrightarrow>
         (\<exists>res. analyze_mesh_quality np self w = Inr res)
       \<and> (\<exists>res. optimize_mesh np self w = Inr res))
    \<and> (num_elements self = 0 \<longrightarrow>
         analyze_mesh_quality np self w = Inl ZeroDivisionError
       \<and> (\<exists>res. optimize_mesh np self w = Inr res))
    \<and> (num_elements self < 0 \<longrightarrow>
         analyze_mesh_quality np self w = Inl ValueError
       \<and> optimize_mesh np self w = Inl ValueError))
   \<and> (\<forall>a. mesh_data self = Some a \<longrightarrow>
        (\<forall>res self' w'. analyze_mesh_quality np self w = Inr (res, self', w') \<longrightarrow>
           self' = self \<and> rng w' = rng w \<and> (\<exists>df. frames w' = frames w @ [df]))
      \<and> (\<exists>b df. optimize_mesh np self w = Inr (b, self, w\<lparr>frames := frames w @ [df]\<rparr>)))"
proof (intro conjI impI allI)
  assume none: "mesh_data self = None"
  show "analyze_mesh_quality np self w
        = (case generate_mesh np self w of
             Inl e \<Rightarrow> Inl e
           | Inr (a, self1, w1) \<Rightarrow> analyze_mesh_quality np self1 w1)"
  proof (cases "generate_mesh np self w")
    case (Inl e)
    then show ?thesis using none by (simp add: analyze_mesh_quality_def ensure_mesh_data_def)
  next
    case (Inr t)
    obtain a self1 w1 where t: "t = (a, self1, w1)" by (cases t)
    from generate_mesh_Inr [of np self w a self1 w1] Inr t
    have "mesh_data self1 = Some a" by auto
    then show ?thesis using none Inr t
      by (simp add: analyze_mesh_quality_def ensure_mesh_data_def)
  qed
next
  assume none: "mesh_data self = None"
  show "optimize_mesh np self w
        = (case generate_mesh np self w of
             Inl e \<Rightarrow> Inl e
           | Inr (a, self1, w1) \<Rightarrow> optimize_mesh np self1 w1)"
  proof (cases "generate_mesh np self w")
    case (Inl e)
    then show ?thesis using none by (simp add: optimize_mesh_def ensure_mesh_data_def)
  next
    case (Inr t)
    obtain a self1 w1 where t: "t = (a, self1, w1)" by (cases t)
    from generate_mesh_Inr [of np self w a self1 w1] Inr t
    have "mesh_data self1 = Some a" by auto
    then show ?thesis using none Inr t
      by (simp add: optimize_mesh_def ensure_mesh_data_def)
  qed
next
  assume none: "mesh_data self = None" and pos: "0 < num_elements self"
  then show "\<exists>res. analyze_mesh_quality np self w = Inr res"
    and "\<exists>res. optimize_mesh np self w = Inr res"
    using fresh_nonnegative [of self np w] by simp_all
next
  assume none: "mesh_data self = None" and zero: "num_elements self = 0"
  then show "analyze_mesh_quality np self w = Inl ZeroDivisionError"
    and "\<exists>res. optimize_mesh np self w = Inr res"
    using fresh_nonnegative [of self np w] by simp_all
next
  assume none: "mesh_data self = None" and neg: "num_elements self < 0"
  then show "analyze_mesh_quality np self w = Inl ValueError"
    and "optimize_mesh np self w = Inl ValueError"
    using fresh_negative [of self np w] by simp_all
next
  fix a res self' w'
  assume "mesh_data self = Some a"
    and "analyze_mesh_quality np self w = Inr (res, self', w')"
  then show "self' = self" and "rng w' = rng w" and "\<exists>df. frames w' = frames w @ [df]"
    by (auto simp: analyze_mesh_quality_def ensure_mesh_data_def alloc_def
        split: sum.splits)
next
  fix a
  assume some: "mesh_data self = Some a"
  show "\<exists>b df. optimize_mesh np self w = Inr (b, self, w\<lparr>frames := frames w @ [df]\<rparr>)"
    using optimize_mesh_unfold [OF ensure_mesh_data_Some [OF some], of np w] by blast
qed

theorem lazy_generation_witness:
  "analyze_mesh_quality demo_random \<lparr>num_elements = 2, mesh_data = None\<rparr> \<lparr>frames = [], rng = 0\<rparr>
     = (case generate_mesh demo_random \<lparr>num_elements = 2, mesh_data = None\<rparr>
               \<lparr>frames = [], rng = 0\<rparr> of
          Inl e \<Rightarrow> Inl e
        | Inr (a, self1, w1) \<Rightarrow> analyze_mesh_quality demo_random self1 w1)
   \<and> optimize_mesh demo_random \<lparr>num_elements = 2, mesh_data = None\<rparr> \<lparr>frames = [], rng = 0\<rparr>
     = (case generate_mesh demo_random \<lparr>num_elements = 2, mesh_data = None\<rparr>
               \<lparr>frames = [], rng = 0\<rparr> of
          Inl e \<Rightarrow> Inl e
        | Inr (a, self1, w1) \<Rightarrow> optimize_mesh demo_random self1 w1)
   \<and> (\<exists>res. analyze_mesh_quality demo_random \<lparr>num_elements = 2, mesh_data = None\<rparr>
               \<lparr>frames = [], rng = 0\<rparr> = Inr res)
   \<and> (\<exists>res. optimize_mesh demo_random \<lparr>num_elements = 2, mesh_data = None\<rparr>
               \<lparr>frames = [], rng = 0\<rparr> = Inr res)
   \<and> analyze_mesh_quality demo_random \<lparr>num_elements = 0, mesh_data = None\<rparr>
       \<lparr>frames = [], rng = 0\<rparr> = Inl ZeroDivisionError
   \<and> (\<exists>res. optimize_mesh demo_random \<lparr>num_elements = 0, mesh_data = None\<rparr>
               \<lparr>frames = [], rng = 0\<rparr> = Inr res)
   \<and> optimize_mesh demo_random \<lparr>num_elements = - 3, mesh_data = None\<rparr>
       \<lparr>frames = [], rng = 0\<rparr> = Inl ValueError
   \<and> (\<exists>res w'.
        analyze_mesh_quality demo_random \<lparr>num_elements = 1, mesh_data = Some 0\<rparr>
          \<lparr>frames = [[\<lparr>Element_ID = 1, Aspect_Ratio = 2.0, Jacobian = 0.9, Skewness = 0.1,
                        Element_Quality = 0.9\<rparr>]], rng = 7\<rparr>
          = Inr (res, \<lparr>num_elements = 1, mesh_data = Some 0\<rparr>, w')
        \<and> rng w' = 7 \<and> length (frames w') = 2)
   \<and> (\<exists>b df.
        optimize_mesh demo_random \<lparr>num_elements = 1, mesh_data = Some 0\<rparr>
          \<lparr>frames = [[\<lparr>Element_ID = 1, Aspect_Ratio = 2.0, Jacobian = 0.9, Skewness = 0.1,
                        Element_Quality = 0.9\<rparr>]], rng = 7\<rparr>
          = Inr (b, \<lparr>num_elements = 1, mesh_data = Some 0\<rparr>,
                 \<lparr>frames = [[\<lparr>Element_ID = 1, Aspect_Ratio = 2.0, Jacobian = 0.9,
                               Skewness = 0.1, Element_Quality = 0.9\<rparr>], df], rng = 7\<rparr>))"
proof -
  let ?fresh = "\<lparr>num_elements = 2, mesh_data = None\<rparr>"
  let ?w0 = "\<lparr>frames = [], rng = 0::nat\<rparr>"
  let ?r = "\<lparr>Element_ID = 1, Aspect_Ratio = 2.0, Jacobian = 0.9, Skewness = 0.1,
              Element_Quality = 0.9::real\<rparr>"
  let ?cached = "\<lparr>num_elements = 1, mesh_data = Some 0\<rparr>"
  let ?w1 = "\<lparr>frames = [[?r]], rng = 7::nat\<rparr>"
  note fresh = lazy_generation [of ?fresh demo_random ?w0]
  note cached = lazy_generation [of ?cached demo_random ?w1]
  have e: "ensure_mesh_data demo_random ?cached ?w1 = Inr (0, ?cached, ?w1)"
    by (simp add: ensure_mesh_data_def)
  obtain res self' w' where
    run: "analyze_mesh_quality demo_random ?cached ?w1 = Inr (res, self', w')"
    using analyze_mesh_quality_unfold [OF e] by simp
  from cached run have keep: "self' = ?cached \<and> rng w' = 7 \<and> length (frames w') = 2"
    by auto
  have part5: "\<exists>res w'. analyze_mesh_quality demo_random ?cached ?w1 = Inr (res, ?cached, w')
        \<and> rng w' = 7 \<and> length (frames w') = 2"
    using run keep by blast
  have part6: "\<exists>b df. optimize_mesh demo_random ?cached ?w1
          = Inr (b, ?cached, \<lparr>frames = [[?r], df], rng = 7\<rparr>)"
    using cached by simp
  have part14:
    "analyze_mesh_quality demo_random ?fresh ?w0
       = (case generate_mesh demo_random ?fresh ?w0 of
            Inl e \<Rightarrow> Inl e
          | Inr (a, self1, w1) \<Rightarrow> analyze_mesh_quality demo_random self1 w1)
     \<and> optimize_mesh demo_random ?fresh ?w0
       = (case generate_mesh demo_random ?fresh ?w0 of
            Inl e \<Rightarrow> Inl e
          | Inr (a, self1, w1) \<Rightarrow> optimize_mesh demo_random self1 w1)
     \<and> (\<exists>res. analyze_mesh_quality demo_random ?fresh ?w0 = Inr res)
     \<and> (\<exists>res. optimize_mesh demo_random ?fresh ?w0 = Inr res)"
    using fresh [simplified] by blast
  have zero: "analyze_mesh_quality demo_random \<lparr>num_elements = 0, mesh_data = None\<rparr> ?w0
        = Inl ZeroDivisionError
      \<and> (\<exists>res. optimize_mesh demo_random \<lparr>num_elements = 0, mesh_data = None\<rparr> ?w0 = Inr res)"
    using lazy_generation [of "\<lparr>num_elements = 0, mesh_data = None\<rparr>" demo_random ?w0, simplified]
    by blast
  have neg: "optimize_mesh demo_random \<lparr>num_elements = - 3, mesh_data = None\<rparr> ?w0
        = Inl ValueError"
    using lazy_generation [of "\<lparr>num_elements = - 3, mesh_data = None\<rparr>" demo_random ?w0,
        simplified]
    by blast
  show ?thesis
    using part14 zero neg part5 part6 by blast
qed

text \<open>
  Claim C10 as stated (the call before any dataset has been generated does not fail) does
  not hold for every simulator: with the element count 0 the generated dataset is empty
  and line 46 divides by its length; with a negative count \<^verbatim>\<open>generate_mesh\<close> itself
  raises.
\<close>

theorem analyze_before_generate_can_fail:
  "analyze_mesh_quality demo_random \<lparr>num_elements = 0, mesh_data = None\<rparr> \<lparr>frames = [], rng = 0\<rparr>
     = Inl ZeroDivisionError
   \<and> analyze_mesh_quality demo_random \<lparr>num_elements = - 1, mesh_data = None\<rparr>
       \<lparr>frames = [], rng = 0\<rparr> = Inl ValueError
   \<and> optimize_mesh demo_random \<lparr>num_elements = - 1, mesh_data = None\<rparr>
       \<lparr>frames = [], rng = 0\<rparr> = Inl ValueError"
  by (simp add: analyze_mesh_quality_def optimize_mesh_def ensure_mesh_data_def
      generate_mesh_def build_mesh_data_def uniform_def DataFrame_of_columns_def alloc_def
      select_rows_def poor_mask_def py_truediv_def demo_random_def)

section \<open>The comparator and the driver: facts and properties\<close>

lemma Series_mean_nonempty: "xs \<noteq> [] \<Longrightarrow> Series_mean xs = Finite (spec_mean xs)"
  by (simp add: Series_mean_def spec_mean_def)

lemma Series_mean_Nil: "Series_mean [] = NaN"
  by (simp add: Series_mean_def)

lemma compute_optimization_metrics_unfold:
  assumes "mesh_data self = Some src"
  shows "compute_optimization_metrics np self optimized_mesh w =
     Inr (\<lparr>Original_Avg_Quality = Series_mean (map Element_Quality (frames w ! src)),
           Optimized_Avg_Quality = Series_mean (map Element_Quality (frames w ! optimized_mesh)),
           Improvement_Percentage =
             f64_mul
               (f64_div
                  (f64_sub (Series_mean (map Element_Quality (frames w ! optimized_mesh)))
                     (Series_mean (map Element_Quality (frames w ! src))))
                  (Series_mean (map Element_Quality (frames w ! src))))
               (Finite 100),
           Computational_Time_Reduction = 18 + (22 - 18) * fst (np_random_sample np (rng w))\<rparr>,
          self, w\<lparr>rng := snd (np_random_sample np (rng w))\<rparr>)"
  using assms
  by (simp add: compute_optimization_metrics_def uniform1_def Let_def split: prod.splits)

text \<open>
  Claim C5: for non-empty original and adjusted datasets whose original mean
  Element_Quality is not zero, \<^verbatim>\<open>compute_optimization_metrics\<close> succeeds and its
  Improvement_Percentage is the finite value of the specification's formula,
  (mean(adjusted) - mean(original)) / mean(original) * 100. Over the reals the two are
  equal; the rounding of float64 is not modelled.
\<close>

theorem improvement_percentage_formula:
  assumes "mesh_data self = Some src"
    and "frames w ! src \<noteq> []" and "frames w ! optimized_mesh \<noteq> []"
    and "spec_mean (map Element_Quality (frames w ! src)) \<noteq> 0"
  shows "\<exists>m w'. compute_optimization_metrics np self optimized_mesh w = Inr (m, self, w')
     \<and> Improvement_Percentage m
         = Finite (spec_improvement (frames w ! src) (frames w ! optimized_mesh))"
proof -
  have o: "Series_mean (map Element_Quality (frames w ! src))
      = Finite (spec_mean (map Element_Quality (frames w ! src)))"
    using assms(2) by (simp add: Series_mean_nonempty)
  have a: "Series_mean (map Element_Quality (frames w ! optimized_mesh))
      = Finite (spec_mean (map Element_Quality (frames w ! optimized_mesh)))"
    using assms(3) by (simp add: Series_mean_nonempty)
  show ?thesis
    using assms(4)
    by (simp add: compute_optimization_metrics_unfold [OF assms(1)] o a spec_improvement_def)
qed

theorem improvement_percentage_formula_witness:
  "\<exists>m w'.
     compute_optimization_metrics demo_random \<lparr>num_elements = 2, mesh_data = Some 0\<rparr> 1
       \<lparr>frames = [[\<lparr>Element_ID = 1, Aspect_Ratio = 2.0, Jacobian = 0.9, Skewness = 0.1,
                     Element_Quality = 0.4\<rparr>,
                   \<lparr>Element_ID = 2, Aspect_Ratio = 2.0, Jacobian = 0.9, Skewness = 0.1,
                     Element_Quality = 0.6\<rparr>],
                  [\<lparr>Element_ID = 1, Aspect_Ratio = 2.0, Jacobian = 0.9, Skewness = 0.1,
                     Element_Quality = 0.5\<rparr>,
                   \<lparr>Element_ID = 2, Aspect_Ratio = 2.0, Jacobian = 0.9, Skewness = 0.1,
                     Element_Quality = 0.6\<rparr>]], rng = 0\<rparr>
       = Inr (m, \<lparr>num_elements = 2, mesh_data = Some 0\<rparr>, w')
     \<and> Improvement_Percentage m = Finite 10"
proof -
  let ?o1 = "\<lparr>Element_ID = 1, Aspect_Ratio = 2.0, Jacobian = 0.9, Skewness = 0.1,
               Element_Quality = 0.4::real\<rparr>"
  let ?o2 = "\<lparr>Element_ID = 2, Aspect_Ratio = 2.0, Jacobian = 0.9, Skewness = 0.1,
               Element_Quality = 0.6::real\<rparr>"
  let ?a1 = "\<lparr>Element_ID = 1, Aspect_Ratio = 2.0, Jacobian = 0.9, Skewness = 0.1,
               Element_Quality = 0.5::real\<rparr>"
  let ?self = "\<lparr>num_elements = 2, mesh_data = Some 0\<rparr>"
  let ?w = "\<lparr>frames = [[?o1, ?o2], [?a1, ?o2]], rng = 0::nat\<rparr>"
  have h1: "mesh_data ?self = Some 0" by simp
  have h2: "frames ?w ! 0 \<noteq> []" by simp
  have h3: "frames ?w ! 1 \<noteq> []" by simp
  have h4: "spec_mean (map Element_Quality (frames ?w ! 0)) \<noteq> 0"
    by (simp add: spec_mean_def)
  have v: "spec_improvement (frames ?w ! 0) (frames ?w ! 1) = 10"
    by (simp add: spec_improvement_def spec_mean_def)
  from improvement_percentage_formula [OF h1 h2 h3 h4, of demo_random] v
  show ?thesis by simp
qed

text \<open>
  Claim C7, as the code has it: when the original dataset's mean Element_Quality is
  exactly zero, \<^verbatim>\<open>compute_optimization_metrics\<close> raises nothing. The operands of line 79
  are numpy float64 scalars, so the division by zero gives a non-finite
  Improvement_Percentage: NaN when the adjusted mean is zero too (or the adjusted dataset
  is empty), plus or minus infinity by the sign of the adjusted mean otherwise. The
  metrics are returned.
\<close>

theorem zero_mean_not_an_error:
  assumes "mesh_data self = Some src" and "frames w ! src \<noteq> []"
    and "spec_mean (map Element_Quality (frames w ! src)) = 0"
  shows "\<exists>m w'. compute_optimization_metrics np self optimized_mesh w = Inr (m, self, w')
     \<and> Original_Avg_Quality m = Finite 0
     \<and> Improvement_Percentage m
         = (if frames w ! optimized_mesh = [] then NaN
            else if spec_mean (map Element_Quality (frames w ! optimized_mesh)) = 0 then NaN
            else if 0 < spec_mean (map Element_Quality (frames w ! optimized_mesh)) then PosInf
            else NegInf)"
proof -
  have o: "Series_mean (map Element_Quality (frames w ! src)) = Finite 0"
    using assms(2,3) by (simp add: Series_mean_nonempty)
  show ?thesis
  proof (cases "frames w ! optimized_mesh = []")
    case True
    then show ?thesis
      by (simp add: compute_optimization_metrics_unfold [OF assms(1)] o Series_mean_Nil)
  next
    case False
    then have a: "Series_mean (map Element_Quality (frames w ! optimized_mesh))
        = Finite (spec_mean (map Element_Quality (frames w ! optimized_mesh)))"
      by (simp add: Series_mean_nonempty)
    show ?thesis
      using False
      by (simp add: compute_optimization_metrics_unfold [OF assms(1)] o a)
  qed
qed

theorem zero_mean_not_an_error_witness:
  "\<exists>m w'.
     compute_optimization_metrics demo_random \<lparr>num_elements = 1, mesh_data = Some 0\<rparr> 1
       \<lparr>frames = [[\<lparr>Element_ID = 1, Aspect_Ratio = 2.0, Jacobian = 0.9, Skewness = 0.1,
                     Element_Quality = 0\<rparr>],
                  [\<lparr>Element_ID = 1, Aspect_Ratio = 2.0, Jacobian = 0.9, Skewness = 0.1,
                     Element_Quality = 0\<rparr>]], rng = 0\<rparr>
       = Inr (m, \<lparr>num_elements = 1, mesh_data = Some 0\<rparr>, w')
     \<and> Original_Avg_Quality m = Finite 0 \<and> Improvement_Percentage m = NaN"
proof -
  let ?z = "\<lparr>Element_ID = 1, Aspect_Ratio = 2.0, Jacobian = 0.9, Skewness = 0.1,
              Element_Quality = 0::real\<rparr>"
  let ?self = "\<lparr>num_elements = 1, mesh_data = Some 0\<rparr>"
  let ?w = "\<lparr>frames = [[?z], [?z]], rng = 0::nat\<rparr>"
  have h1: "mesh_data ?self = Some 0" by simp
  have h2: "frames ?w ! 0 \<noteq> []" by simp
  have h3: "spec_mean (map Element_Quality (frames ?w ! 0)) = 0"
    by (simp add: spec_mean_def)
  have v: "spec_mean (map Element_Quality (frames ?w ! 1)) = 0"
    by (simp add: spec_mean_def)
  from zero_mean_not_an_error [OF h1 h2 h3, of demo_random 1] v
  show ?thesis by simp
qed

text \<open>
  Claim C7 as stated (a failure on a zero original mean) does not hold: with the single
  original Element_Quality 0 and the adjusted one 0.5, the call returns metrics whose
  Improvement_Percentage is plus infinity.
\<close>

theorem zero_mean_returns_infinity:
  "compute_optimization_metrics demo_random \<lparr>num_elements = 1, mesh_data = Some 0\<rparr> 1
     \<lparr>frames = [[\<lparr>Element_ID = 1, Aspect_Ratio = 2.0, Jacobian = 0.9, Skewness = 0.1,
                   Element_Quality = 0\<rparr>],
                [\<lparr>Element_ID = 1, Aspect_Ratio = 2.0, Jacobian = 0.9, Skewness = 0.1,
                   Element_Quality = 0.5\<rparr>]], rng = 0\<rparr>
   = Inr (\<lparr>Original_Avg_Quality = Finite 0, Optimized_Avg_Quality = Finite 0.5,
           Improvement_Percentage = PosInf, Computational_Time_Reduction = 18\<rparr>,
          \<lparr>num_elements = 1, mesh_data = Some 0\<rparr>,
          \<lparr>frames = [[\<lparr>Element_ID = 1, Aspect_Ratio = 2.0, Jacobian = 0.9, Skewness = 0.1,
                        Element_Quality = 0\<rparr>],
                     [\<lparr>Element_ID = 1, Aspect_Ratio = 2.0, Jacobian = 0.9, Skewness = 0.1,
                        Element_Quality = 0.5\<rparr>]], rng = 1\<rparr>)"
  by (simp add: compute_optimization_metrics_def uniform1_def Series_mean_def demo_random_def)

lemma run_program_unfold:
  "run_program np to_csv n w =
     (case build_mesh_data np n of
        Inl e \<Rightarrow> Inl e
      | Inr (df, s) \<Rightarrow>
          if df = [] then Inl ZeroDivisionError
          else Inr
            \<lparr>out_mesh_data = df,
             out_analysis =
               \<lparr>Total_Elements = length df,
                Poor_Quality_Elements = length (filter spec_poor df),
                Percentage_Poor = real (length (filter spec_poor df)) / real (length df) * 100,
                Avg_Aspect_Ratio = Series_mean (map Aspect_Ratio df),
                Avg_Jacobian = Series_mean (map Jacobian df),
                Avg_Skewness = Series_mean (map Skewness df),
                Avg_Element_Quality = Series_mean (map Element_Quality df)\<rparr>,
             out_poor_elements = filter spec_poor df,
             out_optimized_mesh = map optimize_row df,
             out_metrics =
               \<lparr>Original_Avg_Quality = Series_mean (map Element_Quality df),
                Optimized_Avg_Quality =
                  Series_mean (map Element_Quality (map optimize_row df)),
                Improvement_Percentage =
                  f64_mul
                    (f64_div
                       (f64_sub (Series_mean (map Element_Quality (map optimize_row df)))
                          (Series_mean (map Element_Quality df)))
                       (Series_mean (map Element_Quality df)))
                    (Finite 100),
                Computational_Time_Reduction = 18 + (22 - 18) * fst (np_random_sample np s)\<rparr>,
             original_mesh_data_csv = to_csv df,
             optimized_mesh_data_csv = to_csv (map optimize_row df),
             poor_quality_elements_csv = to_csv (filter spec_poor df)\<rparr>)"
proof (cases "build_mesh_data np n")
  case (Inl e)
  then show ?thesis
    by (simp add: run_program_def generate_mesh_unfold MeshOptimizer_init_def)
next
  case (Inr t)
  obtain df s where t: "t = (df, s)" by (cases t)
  let ?a = "length (frames w)"
  let ?self1 = "\<lparr>num_elements = n, mesh_data = Some ?a\<rparr>"
  let ?w1 = "\<lparr>frames = frames w @ [df], rng = s\<rparr>"
  have g: "generate_mesh np (MeshOptimizer_init n) w = Inr (?a, ?self1, ?w1)"
    using Inr t by (simp add: generate_mesh_unfold MeshOptimizer_init_def)
  have e1: "ensure_mesh_data np ?self1 ?w1 = Inr (?a, ?self1, ?w1)"
    by (simp add: ensure_mesh_data_def)
  have src1: "?a < length (frames ?w1)" by simp
  note an = analyze_mesh_quality_unfold [OF e1 src1]
  show ?thesis
  proof (cases "df = []")
    case True
    then show ?thesis using Inr t g an by (simp add: run_program_def)
  next
    case False
    let ?report =
      "\<lparr>Total_Elements = length df,
        Poor_Quality_Elements = length (filter spec_poor df),
        Percentage_Poor = real (length (filter spec_poor df)) / real (length df) * 100,
        Avg_Aspect_Ratio = Series_mean (map Aspect_Ratio df),
        Avg_Jacobian = Series_mean (map Jacobian df),
        Avg_Skewness = Series_mean (map Skewness df),
        Avg_Element_Quality = Series_mean (map Element_Quality df)\<rparr>"
    let ?w2 = "\<lparr>frames = frames w @ [df, filter spec_poor df], rng = s\<rparr>"
    let ?w3 = "\<lparr>frames = frames w @ [df, filter spec_poor df, map optimize_row df], rng = s\<rparr>"
    have an': "analyze_mesh_quality np ?self1 ?w1 = Inr ((?report, Suc ?a), ?self1, ?w2)"
      using an False by simp
    have e2: "ensure_mesh_data np ?self1 ?w2 = Inr (?a, ?self1, ?w2)"
      by (simp add: ensure_mesh_data_def)
    have op': "optimize_mesh np ?self1 ?w2 = Inr (Suc (Suc ?a), ?self1, ?w3)"
      using optimize_mesh_unfold [OF e2] by (simp add: nth_append)
    have md: "mesh_data ?self1 = Some ?a" by simp
    have cm': "compute_optimization_metrics np ?self1 (Suc (Suc ?a)) ?w3 =
      Inr (\<lparr>Original_Avg_Quality = Series_mean (map Element_Quality df),
            Optimized_Avg_Quality = Series_mean (map Element_Quality (map optimize_row df)),
            Improvement_Percentage =
              f64_mul
                (f64_div
                   (f64_sub (Series_mean (map Element_Quality (map optimize_row df)))
                      (Series_mean (map Element_Quality df)))
                   (Series_mean (map Element_Quality df)))
                (Finite 100),
            Computational_Time_Reduction = 18 + (22 - 18) * fst (np_random_sample np s)\<rparr>,
           ?self1, ?w3\<lparr>rng := snd (np_random_sample np s)\<rparr>)"
      using compute_optimization_metrics_unfold [OF md, of np "Suc (Suc ?a)" ?w3]
      by (simp add: nth_append)
    have "run_program np to_csv n w =
      Inr \<lparr>out_mesh_data = df, out_analysis = ?report,
           out_poor_elements = filter spec_poor df,
           out_optimized_mesh = map optimize_row df,
           out_metrics =
             \<lparr>Original_Avg_Quality = Series_mean (map Element_Quality df),
              Optimized_Avg_Quality = Series_mean (map Element_Quality (map optimize_row df)),
              Improvement_Percentage =
                f64_mul
                  (f64_div
                     (f64_sub (Series_mean (map Element_Quality (map optimize_row df)))
                        (Series_mean (map Element_Quality df)))
                     (Series_mean (map Element_Quality df)))
                  (Finite 100),
              Computational_Time_Reduction = 18 + (22 - 18) * fst (np_random_sample np s)\<rparr>,
           original_mesh_data_csv = to_csv df,
           optimized_mesh_data_csv = to_csv (map optimize_row df),
           poor_quality_elements_csv = to_csv (filter spec_poor df)\<rparr>"
      unfolding run_program_def g sum.case prod.case an' op' cm'
      by (simp add: nth_append)
    then show ?thesis using False Inr t by simp
  qed
qed

text \<open>
  Claim C8, as the code has it: two runs with the same element count give the same
  result in every part, whatever state the interpreter and numpy's global generator
  start in: the generated dataset, the analysis, the poor subset, the adjusted dataset,
  the three files, and the metrics with Computational_Time_Reduction among them. Line 85
  draws from the global generator that line 13 seeded with 42, after the same number of
  draws in every run.
\<close>

theorem run_program_deterministic:
  "run_program np to_csv n w = run_program np to_csv n w'"
  by (simp only: run_program_unfold)

lemma demo_build_1:
  "build_mesh_data demo_random 1
     = Inr ([\<lparr>Element_ID = 1, Aspect_Ratio = 3, Jacobian = 0.825, Skewness = 0,
               Element_Quality = 0.55\<rparr>], 46)"
  by (simp add: build_mesh_data_def uniform_def DataFrame_of_columns_def demo_random_def)

text \<open>
  Claim C8 as stated (Computational_Time_Reduction is not seeded and may differ between
  runs) does not hold: two runs that start with the global generator in different states
  report the same figure, here 20 with the small concrete generator.
\<close>

theorem time_reduction_is_seeded:
  "map_sum id (Computational_Time_Reduction \<circ> out_metrics)
     (run_program demo_random demo_to_csv 1 \<lparr>frames = [], rng = 0\<rparr>) = Inr 20
   \<and> map_sum id (Computational_Time_Reduction \<circ> out_metrics)
     (run_program demo_random demo_to_csv 1 \<lparr>frames = [], rng = 7\<rparr>) = Inr 20"
  by (simp add: run_program_unfold demo_build_1) (simp add: demo_random_def)

end
